theory Spec2Isabelle
  imports Main "HOL-Library.Word"
begin

section \<open>Package fs (src/fs/fs.go): data model\<close>

subsection \<open>Errors and results\<close>

text \<open>
  A Go handler returns \<open>(interface{}, error)\<close>; the model returns \<open>error + 'a\<close>.
  \<open>Error msg\<close> is an error value (\<open>errors.New(msg)\<close> or the error of a primitive),
  \<open>Panic msg\<close> a run-time panic raised inside the handler, and \<open>Deadlock\<close> a call that
  never returns because it waits for the mutex \<open>mu\<close> that nobody will release.
\<close>

datatype error = Error string | Panic string | Deadlock

subsection \<open>Events of the OS layer (fsnotify.v1)\<close>

text \<open>
  \<open>fsnotify.Op\<close> is a \<open>uint32\<close> bit mask; the constants are \<open>1 << iota\<close> in the order
  Create, Write, Remove, Rename, Chmod. An event carries the affected path and the mask.
\<close>

definition fsnotify_Create :: "32 word" where "fsnotify_Create = 1"
definition fsnotify_Write :: "32 word" where "fsnotify_Write = 2"
definition fsnotify_Remove :: "32 word" where "fsnotify_Remove = 4"
definition fsnotify_Rename :: "32 word" where "fsnotify_Rename = 8"
definition fsnotify_Chmod :: "32 word" where "fsnotify_Chmod = 16"

record Event =
  Name :: string
  Op :: "32 word"

subsection \<open>Remote callbacks (dnode.Function)\<close>

text \<open>
  A \<open>dnode.Function\<close> wraps a caller that is nil when the client passed no function;
  \<open>IsValid\<close> tests that. The caller is identified by a number.
\<close>

datatype Function = Function (Caller: "nat option")

definition IsValid :: "Function \<Rightarrow> bool" where
  "IsValid f = (case Caller f of None \<Rightarrow> False | Some c \<Rightarrow> True)"

subsection \<open>Calls of the path primitives\<close>

text \<open>
  The primitives (\<open>readDirectory\<close>, \<open>glob\<close>, \<open>readFile\<close>, \<open>writeFile\<close>, \<open>uniquePath\<close>,
  \<open>getInfo\<close>, \<open>setPermissions\<close>, \<open>remove\<close>, \<open>rename\<close>, \<open>createDirectory\<close>, \<open>cp\<close>) are
  declared outside fs.go. They are a parameter of the model: a function \<open>fs\<close> from the
  call to its result, of an arbitrary value type \<open>'v\<close> (Go's \<open>interface{}\<close>). Every call
  a handler makes is appended to the trace \<open>calls\<close> of the state.
\<close>

datatype fscall =
    readDirectory string
  | glob string
  | readFile string
  | writeFile string "8 word list" bool bool
  | uniquePath string
  | getInfo string
  | setPermissions string "32 word" bool
  | remove string bool
  | rename string string
  | createDirectory string bool
  | cp string string

subsection \<open>path.Base\<close>

text \<open>
  Go's \<open>path.Base\<close>: the empty path gives \<open>.\<close>; trailing slashes are stripped; the
  result is what follows the last slash; a path of slashes only gives \<open>/\<close>.
\<close>

definition stripTrailingSlashes :: "string \<Rightarrow> string" where
  "stripTrailingSlashes p = rev (dropWhile (\<lambda>c. c = CHR ''/'') (rev p))"

definition lastElement :: "string \<Rightarrow> string" where
  "lastElement p = rev (takeWhile (\<lambda>c. c \<noteq> CHR ''/'') (rev p))"

definition Base :: "string \<Rightarrow> string" where
  "Base p =
     (if p = [] then ''.''
      else (let q = lastElement (stripTrailingSlashes p)
            in if q = [] then ''/'' else q))"

subsection \<open>The change callback built by ReadDirectory (lines 48-69)\<close>

text \<open>
  The payload sent to the client is the Go map with the keys \<open>event\<close> and \<open>file\<close>
  (the field \<open>file'\<close> below).
\<close>

record 'e payload =
  event :: string
  file' :: "'e option"

text \<open>
  \<open>changer\<close> is a closure. It captures \<open>params\<close> (of which it uses \<open>OnChange\<close>) and the
  two variables \<open>eventType\<close> and \<open>fileEntry\<close>, which are declared outside the closure
  body (lines 48-49) and therefore keep their values from one call to the next. They
  start as the empty string and nil.
\<close>

record 'e changer_closure =
  OnChange_captured :: Function
  eventType :: string
  fileEntry :: "'e option"

definition new_changer :: "Function \<Rightarrow> 'e changer_closure" where
  "new_changer f = \<lparr>OnChange_captured = f, eventType = [], fileEntry = None\<rparr>"

text \<open>
  \<open>getInfo\<close> and \<open>NewFileEntry\<close> are declared outside fs.go, as is the type \<open>FileEntry\<close>
  (\<open>'e\<close> here): both are parameters, \<open>getInfo'\<close> and \<open>NewFileEntry\<close>.
  \<open>fileEntry, _ = getInfo(ev.Name)\<close> discards the error; the entry is nil when \<open>getInfo\<close>
  fails.
\<close>

definition getInfo_entry :: "(string \<Rightarrow> error + 'e) \<Rightarrow> string \<Rightarrow> 'e option" where
  "getInfo_entry getInfo' p = (case getInfo' p of Inl err \<Rightarrow> None | Inr e \<Rightarrow> Some e)"

text \<open>
  One call \<open>changer(ev)\<close>: the switch on \<open>ev.Op\<close> compares the whole mask with the
  constants and has no default case; the call of \<open>params.OnChange\<close> after the switch is
  unconditional. The result is the closure with its updated variables and the one
  remote call made: the function called and the payload.
\<close>

definition changer ::
  "(string \<Rightarrow> error + 'e) \<Rightarrow> (string \<Rightarrow> string \<Rightarrow> 'e) \<Rightarrow> 'e changer_closure \<Rightarrow> Event
     \<Rightarrow> 'e changer_closure \<times> (Function \<times> 'e payload)" where
  "changer getInfo' NewFileEntry c ev =
     (let c' =
        (if Op ev = fsnotify_Create
         then c\<lparr>eventType := ''added'', fileEntry := getInfo_entry getInfo' (Name ev)\<rparr>
         else if Op ev = fsnotify_Remove \<or> Op ev = fsnotify_Rename
         then c\<lparr>eventType := ''removed'',
                 fileEntry := Some (NewFileEntry (Base (Name ev)) (Name ev))\<rparr>
         else c)
      in (c', (OnChange_captured c', \<lparr>event = eventType c', file' = fileEntry c'\<rparr>)))"

subsection \<open>path.Dir\<close>

text \<open>
  Go's \<open>path.Dir\<close> is \<open>Clean\<close> of everything up to and including the last slash.
  \<open>Clean\<close> drops empty and \<open>.\<close> elements, lets \<open>..\<close> cancel the element before it
  (dropping it at the root, keeping it in front of a relative path), and returns \<open>.\<close>
  for an empty result.
\<close>

fun splitSlash :: "string \<Rightarrow> string list" where
  "splitSlash [] = [[]]"
| "splitSlash (c # cs) =
     (if c = CHR ''/'' then [] # splitSlash cs
      else (case splitSlash cs of [] \<Rightarrow> [[c]] | x # xs \<Rightarrow> (c # x) # xs))"

definition cleanStep :: "bool \<Rightarrow> string list \<Rightarrow> string \<Rightarrow> string list" where
  "cleanStep rooted stack el =
     (if el = [] \<or> el = ''.'' then stack
      else if el = ''..'' then
        (case stack of
           [] \<Rightarrow> (if rooted then [] else [''..''])
         | prev # rest \<Rightarrow> (if prev = ''..'' then ''..'' # stack else rest))
      else el # stack)"

fun joinSlash :: "string list \<Rightarrow> string" where
  "joinSlash [] = []"
| "joinSlash [x] = x"
| "joinSlash (x # y # ys) = x @ ''/'' @ joinSlash (y # ys)"

definition Clean :: "string \<Rightarrow> string" where
  "Clean p =
     (if p = [] then ''.''
      else (let rooted = (hd p = CHR ''/'');
                out = (if rooted then ''/'' else []) @
                      joinSlash (rev (foldl (cleanStep rooted) [] (splitSlash p)))
            in if out = [] then ''.'' else out))"

definition Dir :: "string \<Rightarrow> string" where
  "Dir p = Clean (rev (dropWhile (\<lambda>c. c \<noteq> CHR ''/'') (rev p)))"

section \<open>The watch registry and the OS watcher\<close>

text \<open>
  The package-level variables: \<open>watchCallbacks\<close> maps a path to the map from user name
  to callback (a missing key reads as the nil map, here \<open>None\<close>); \<open>mu\<close> is the mutex
  (\<open>True\<close> when held); \<open>once_done\<close> records that \<open>once.Do\<close> has started the watcher.
  \<open>watches\<close> is the set of paths the fsnotify watcher watches, \<open>onDisconnect\<close> the
  hooks registered with \<open>r.Client.OnDisconnect\<close> (the client and the closure), and
  \<open>calls\<close> the trace of primitive calls.

  The closure \<open>removePath\<close> (lines 87-107) captures \<open>params.Path\<close> and \<open>r.Username\<close>; it is
  represented by that pair.

  Operations run one after the other. Every operation that takes the mutex releases it
  before it ends, unless it panics; so a mutex that is held when an operation starts
  is held for ever, and the operation never returns. This is the process after the RPC
  layer has recovered the panic of a handler; without the recovery the process ends
  with the panic. Logging (\<open>log.Println\<close>) is not part of the state.
\<close>

type_synonym removePath_closure = "string \<times> string"

record 'e State =
  watchCallbacks :: "string \<rightharpoonup> (string \<rightharpoonup> 'e changer_closure)"
  mu :: bool
  once_done :: bool
  watches :: "string set"
  onDisconnect :: "(nat \<times> removePath_closure) list"
  calls :: "fscall list"

definition init :: "'e State" where
  "init = \<lparr>watchCallbacks = Map.empty, mu = False, once_done = False, watches = {},
            onDisconnect = [], calls = []\<rparr>"

text \<open>
  The goroutine of \<open>startWatcher\<close> (lines 134-149) receives from the unbuffered channels
  \<open>newPaths\<close> and \<open>oldPaths\<close> and calls \<open>watcher.Add\<close> and \<open>watcher.Remove\<close>; an error
  of either is logged and nothing else. Whether \<open>watcher.Add\<close> succeeds on a path is the
  parameter \<open>addOK\<close>. A send and its receipt are one step.
\<close>

definition send_newPaths :: "(string \<Rightarrow> bool) \<Rightarrow> string \<Rightarrow> 'e State \<Rightarrow> 'e State" where
  "send_newPaths addOK p s = (if addOK p then s\<lparr>watches := insert p (watches s)\<rparr> else s)"

definition send_oldPaths :: "string \<Rightarrow> 'e State \<Rightarrow> 'e State" where
  "send_oldPaths p s = s\<lparr>watches := watches s - {p}\<rparr>"

definition subscription :: "'e State \<Rightarrow> string \<Rightarrow> string \<Rightarrow> 'e changer_closure option" where
  "subscription s path user =
     (case watchCallbacks s path of None \<Rightarrow> None | Some userCallbacks \<Rightarrow> userCallbacks user)"

section \<open>Requests\<close>

text \<open>
  \<open>r.Args\<close> is a pointer to a \<open>dnode.Partial\<close> (raw arguments), nil when the caller sent
  none. A partial is represented by what \<open>r.Args.One().Unmarshal(&params)\<close> does with the
  handler's \<open>params\<close>: whether it returns an error, and the contents of \<open>params\<close>
  afterwards. A field that the argument does not carry keeps Go's zero value, the empty
  string for a string field.
\<close>

datatype 'p Partial = Partial (unmarshal_fails: bool) (unmarshal_value: 'p)

record 'p Request =
  Username :: string
  Args :: "'p Partial option"
  Client :: nat

text \<open>The parameter structs of the handlers; structs with the same fields share a record.\<close>

record pathParams =
  Path :: string

record readDirectoryParams = pathParams +
  OnChange :: Function

record writeFileParams = pathParams +
  Content :: "8 word list"
  DoNotOverwrite :: bool
  Append :: bool

record recursiveParams = pathParams +
  Recursive :: bool

record setPermissionsParams = recursiveParams +
  Mode :: "32 word"

record globParams =
  Pattern :: string

record renameParams =
  OldPath :: string
  NewPath :: string

record copyParams =
  SrcPath :: string
  DstPath :: string

section \<open>ReadDirectory (lines 27-125)\<close>

text \<open>
  Lines 72-85, under the mutex. When the path is not in \<open>watchCallbacks\<close> the path is
  sent on \<open>newPaths\<close> and \<open>userCallbacks\<close> is the nil map: reading \<open>userCallbacks[r.Username]\<close>
  gives \<open>ok = false\<close>, and the assignment \<open>userCallbacks[r.Username] = changer\<close> of line 82
  panics, since Go does not allow assignment to an entry of a nil map. The panic leaves
  \<open>mu\<close> held: \<open>mu.Unlock()\<close> of line 85 is not deferred. When the path is there, the
  callback is stored only if the user has none yet (the guard \<open>if !ok\<close> of line 81).
\<close>

definition ReadDirectory_register ::
  "(string \<Rightarrow> bool) \<Rightarrow> string \<Rightarrow> string \<Rightarrow> 'e changer_closure \<Rightarrow> 'e State
     \<Rightarrow> error option \<times> 'e State" where
  "ReadDirectory_register addOK path user ch s =
     (if mu s then (Some Deadlock, s)
      else (let s1 = s\<lparr>mu := True\<rparr>
            in case watchCallbacks s1 path of
                 None \<Rightarrow>
                   (Some (Panic ''assignment to entry in nil map''), send_newPaths addOK path s1)
               | Some userCallbacks \<Rightarrow>
                   (case userCallbacks user of
                      None \<Rightarrow>
                        (None, s1\<lparr>watchCallbacks :=
                                     (watchCallbacks s1)(path \<mapsto> userCallbacks(user \<mapsto> ch)),
                                   mu := False\<rparr>)
                    | Some old \<Rightarrow> (None, s1\<lparr>mu := False\<rparr>))))"

text \<open>The response map of ReadDirectory: the keys \<open>stopWatching\<close> and \<open>files\<close>.\<close>

record 'v response =
  stopWatching :: "removePath_closure option"
  files :: 'v

text \<open>Lines 118-124: the listing.\<close>

definition ReadDirectory_list ::
  "(fscall \<Rightarrow> error + 'v) \<Rightarrow> string \<Rightarrow> removePath_closure option \<Rightarrow> 'e State
     \<Rightarrow> (error + 'v response) \<times> 'e State" where
  "ReadDirectory_list fs path stop s =
     (let s' = s\<lparr>calls := calls s @ [readDirectory path]\<rparr>
      in case fs (readDirectory path) of
           Inl err \<Rightarrow> (Inl err, s')
         | Inr fl \<Rightarrow> (Inr \<lparr>stopWatching = stop, files = fl\<rparr>, s'))"

definition ReadDirectory ::
  "(fscall \<Rightarrow> error + 'v) \<Rightarrow> (string \<Rightarrow> bool) \<Rightarrow> readDirectoryParams Request \<Rightarrow> 'e State
     \<Rightarrow> (error + 'v response) \<times> 'e State" where
  "ReadDirectory fs addOK r s =
     (case Args r of
        None \<Rightarrow> (Inl (Error ''arguments are not passed''), s)
      | Some a \<Rightarrow>
          (let params = unmarshal_value a
           in if unmarshal_fails a \<or> Path params = []
              then (Inl (Error ''{ path: [string], onChange: [function]}''), s)
              else if IsValid (OnChange params)
              then (case ReadDirectory_register addOK (Path params) (Username r)
                           (new_changer (OnChange params)) (s\<lparr>once_done := True\<rparr>) of
                      (Some err, s1) \<Rightarrow> (Inl err, s1)
                    | (None, s1) \<Rightarrow>
                        (let removePath = (Path params, Username r);
                             s2 = s1\<lparr>onDisconnect := onDisconnect s1 @ [(Client r, removePath)]\<rparr>
                         in ReadDirectory_list fs (Path params) (Some removePath) s2))
              else ReadDirectory_list fs (Path params) None s))"

section \<open>Teardown: the closure removePath (lines 87-107)\<close>

text \<open>
  \<open>None\<close> when the call waits for a mutex that is held. \<open>delete\<close> works on the inner map
  in place; \<open>len(userCallbacks) == 0\<close> is \<open>dom userCallbacks = {}\<close>.
\<close>

definition removePath :: "string \<Rightarrow> string \<Rightarrow> 'e State \<Rightarrow> 'e State option" where
  "removePath path user s =
     (if mu s then None
      else (case watchCallbacks s path of
              None \<Rightarrow> Some s
            | Some userCallbacks \<Rightarrow>
                (let userCallbacks' = userCallbacks(user := None)
                 in if dom userCallbacks' = {}
                    then Some (send_oldPaths path
                                 (s\<lparr>watchCallbacks := (watchCallbacks s)(path := None)\<rparr>))
                    else Some (s\<lparr>watchCallbacks :=
                                    (watchCallbacks s)(path \<mapsto> userCallbacks')\<rparr>))))"

text \<open>
  The two ways to run it: the hook given to \<open>r.Client.OnDisconnect\<close> (line 110) is the
  closure itself; the \<open>stopWatching\<close> callback (lines 113-115) ignores its argument and
  calls the closure.
\<close>

definition run_removePath :: "removePath_closure \<Rightarrow> 'e State \<Rightarrow> 'e State option" where
  "run_removePath c s = removePath (fst c) (snd c) s"

definition disconnect_hook :: "removePath_closure \<Rightarrow> 'e State \<Rightarrow> 'e State option" where
  "disconnect_hook c s = run_removePath c s"

definition stopWatching_callback ::
  "removePath_closure \<Rightarrow> 'a \<Rightarrow> 'e State \<Rightarrow> 'e State option" where
  "stopWatching_callback c partial s = run_removePath c s"

section \<open>The event loop of startWatcher (lines 151-168)\<close>

text \<open>
  One event: under the mutex, \<open>f\<close> is looked up at \<open>path.Dir(event.Name)\<close>; without an
  entry the loop continues. With an entry, line 163 is \<open>f(event)\<close>, where \<open>f\<close> is the
  inner map from user name to callback, not a callback: the source has no loop over
  the entries of \<open>f\<close> and calls none of them. The model records the call of the map as
  it is written.
\<close>

datatype 'e dispatched =
    Waiting
  | Continue
  | CallOfMap "string \<rightharpoonup> 'e changer_closure" Event

definition startWatcher_event :: "'e State \<Rightarrow> Event \<Rightarrow> 'e dispatched" where
  "startWatcher_event s ev =
     (if mu s then Waiting
      else (case watchCallbacks s (Dir (Name ev)) of
              None \<Rightarrow> Continue
            | Some f \<Rightarrow> CallOfMap f ev))"

section \<open>The other handlers (lines 172-344)\<close>

text \<open>
  None of them tests \<open>r.Args\<close> for nil: \<open>r.Args.One()\<close> on a nil partial does not return
  (the accessor panics). A primitive that is called is appended to the trace. \<open>call\<close> is
  a handler that returns the primitive's result as it is; \<open>call_true\<close> one that returns
  \<open>true\<close> when the primitive returns no error.
\<close>

definition nilArgs :: error where
  "nilArgs = Panic ''One() of nil arguments''"

definition call ::
  "(fscall \<Rightarrow> error + 'v) \<Rightarrow> fscall \<Rightarrow> 'e State \<Rightarrow> (error + 'v) \<times> 'e State" where
  "call fs c s = (fs c, s\<lparr>calls := calls s @ [c]\<rparr>)"

definition call_true ::
  "(fscall \<Rightarrow> error + 'v) \<Rightarrow> fscall \<Rightarrow> 'e State \<Rightarrow> (error + bool) \<times> 'e State" where
  "call_true fs c s =
     (case fs c of
        Inl err \<Rightarrow> (Inl err, s\<lparr>calls := calls s @ [c]\<rparr>)
      | Inr v \<Rightarrow> (Inr True, s\<lparr>calls := calls s @ [c]\<rparr>))"

definition Glob ::
  "(fscall \<Rightarrow> error + 'v) \<Rightarrow> globParams Request \<Rightarrow> 'e State \<Rightarrow> (error + 'v) \<times> 'e State" where
  "Glob fs r s =
     (case Args r of
        None \<Rightarrow> (Inl nilArgs, s)
      | Some a \<Rightarrow>
          (let params = unmarshal_value a
           in if unmarshal_fails a \<or> Pattern params = []
              then (Inl (Error ''{ pattern: [string] }''), s)
              else call fs (glob (Pattern params)) s))"

definition ReadFile ::
  "(fscall \<Rightarrow> error + 'v) \<Rightarrow> pathParams Request \<Rightarrow> 'e State \<Rightarrow> (error + 'v) \<times> 'e State" where
  "ReadFile fs r s =
     (case Args r of
        None \<Rightarrow> (Inl nilArgs, s)
      | Some a \<Rightarrow>
          (let params = unmarshal_value a
           in if unmarshal_fails a \<or> Path params = []
              then (Inl (Error ''{ path: [string] }''), s)
              else call fs (readFile (Path params)) s))"

definition WriteFile ::
  "(fscall \<Rightarrow> error + 'v) \<Rightarrow> writeFileParams Request \<Rightarrow> 'e State
     \<Rightarrow> (error + 'v) \<times> 'e State" where
  "WriteFile fs r s =
     (case Args r of
        None \<Rightarrow> (Inl nilArgs, s)
      | Some a \<Rightarrow>
          (let params = unmarshal_value a
           in if unmarshal_fails a \<or> Path params = []
              then (Inl (Error ''{ path: [string] }''), s)
              else call fs (writeFile (Path params) (Content params) (DoNotOverwrite params)
                              (Append params)) s))"

definition UniquePath ::
  "(fscall \<Rightarrow> error + 'v) \<Rightarrow> pathParams Request \<Rightarrow> 'e State \<Rightarrow> (error + 'v) \<times> 'e State" where
  "UniquePath fs r s =
     (case Args r of
        None \<Rightarrow> (Inl nilArgs, s)
      | Some a \<Rightarrow>
          (let params = unmarshal_value a
           in if unmarshal_fails a \<or> Path params = []
              then (Inl (Error ''{ path: [string] }''), s)
              else call fs (uniquePath (Path params)) s))"

definition GetInfo ::
  "(fscall \<Rightarrow> error + 'v) \<Rightarrow> pathParams Request \<Rightarrow> 'e State \<Rightarrow> (error + 'v) \<times> 'e State" where
  "GetInfo fs r s =
     (case Args r of
        None \<Rightarrow> (Inl nilArgs, s)
      | Some a \<Rightarrow>
          (let params = unmarshal_value a
           in if unmarshal_fails a \<or> Path params = []
              then (Inl (Error ''{ path: [string] }''), s)
              else call fs (getInfo (Path params)) s))"

definition SetPermissions ::
  "(fscall \<Rightarrow> error + 'v) \<Rightarrow> setPermissionsParams Request \<Rightarrow> 'e State
     \<Rightarrow> (error + bool) \<times> 'e State" where
  "SetPermissions fs r s =
     (case Args r of
        None \<Rightarrow> (Inl nilArgs, s)
      | Some a \<Rightarrow>
          (let params = unmarshal_value a
           in if unmarshal_fails a \<or> Path params = []
              then (Inl (Error ''{ path: [string], mode: [integer], recursive: [bool] }''), s)
              else call_true fs (setPermissions (Path params) (Mode params) (Recursive params))
                     s))"

definition Remove ::
  "(fscall \<Rightarrow> error + 'v) \<Rightarrow> recursiveParams Request \<Rightarrow> 'e State
     \<Rightarrow> (error + bool) \<times> 'e State" where
  "Remove fs r s =
     (case Args r of
        None \<Rightarrow> (Inl nilArgs, s)
      | Some a \<Rightarrow>
          (let params = unmarshal_value a
           in if unmarshal_fails a \<or> Path params = []
              then (Inl (Error ''{ path: [string], recursive: [bool] }''), s)
              else call_true fs (remove (Path params) (Recursive params)) s))"

definition Rename ::
  "(fscall \<Rightarrow> error + 'v) \<Rightarrow> renameParams Request \<Rightarrow> 'e State
     \<Rightarrow> (error + bool) \<times> 'e State" where
  "Rename fs r s =
     (case Args r of
        None \<Rightarrow> (Inl nilArgs, s)
      | Some a \<Rightarrow>
          (let params = unmarshal_value a
           in if unmarshal_fails a \<or> OldPath params = [] \<or> NewPath params = []
              then (Inl (Error ''{ oldPath: [string], newPath: [string] }''), s)
              else call_true fs (rename (OldPath params) (NewPath params)) s))"

definition CreateDirectory ::
  "(fscall \<Rightarrow> error + 'v) \<Rightarrow> recursiveParams Request \<Rightarrow> 'e State
     \<Rightarrow> (error + bool) \<times> 'e State" where
  "CreateDirectory fs r s =
     (case Args r of
        None \<Rightarrow> (Inl nilArgs, s)
      | Some a \<Rightarrow>
          (let params = unmarshal_value a
           in if unmarshal_fails a \<or> Path params = []
              then (Inl (Error ''{ path: [string], recursive: [bool] }''), s)
              else call_true fs (createDirectory (Path params) (Recursive params)) s))"

text \<open>Move calls \<open>rename\<close>, as Rename does.\<close>

definition Move ::
  "(fscall \<Rightarrow> error + 'v) \<Rightarrow> renameParams Request \<Rightarrow> 'e State
     \<Rightarrow> (error + bool) \<times> 'e State" where
  "Move fs r s =
     (case Args r of
        None \<Rightarrow> (Inl nilArgs, s)
      | Some a \<Rightarrow>
          (let params = unmarshal_value a
           in if unmarshal_fails a \<or> OldPath params = [] \<or> NewPath params = []
              then (Inl (Error ''{ oldPath: [string], newPath: [string] }''), s)
              else call_true fs (rename (OldPath params) (NewPath params)) s))"

definition Copy ::
  "(fscall \<Rightarrow> error + 'v) \<Rightarrow> copyParams Request \<Rightarrow> 'e State
     \<Rightarrow> (error + bool) \<times> 'e State" where
  "Copy fs r s =
     (case Args r of
        None \<Rightarrow> (Inl nilArgs, s)
      | Some a \<Rightarrow>
          (let params = unmarshal_value a
           in if unmarshal_fails a \<or> SrcPath params = [] \<or> DstPath params = []
              then (Inl (Error ''{ srcPath: [string], dstPath: [string] }''), s)
              else call_true fs (cp (SrcPath params) (DstPath params)) s))"

section \<open>Sequences of operations\<close>

text \<open>
  A run applies subscribe requests and teardowns one after the other, each to the state
  the one before has left; a teardown that waits for the mutex leaves the state as it
  is.
\<close>

datatype operation =
    Subscribe "readDirectoryParams Request"
  | Teardown string string

fun apply_operation ::
  "(fscall \<Rightarrow> error + 'v) \<Rightarrow> (string \<Rightarrow> bool) \<Rightarrow> 'e State \<Rightarrow> operation \<Rightarrow> 'e State" where
  "apply_operation fs addOK s (Subscribe r) = snd (ReadDirectory fs addOK r s)"
| "apply_operation fs addOK s (Teardown path user) =
     (case removePath path user s of None \<Rightarrow> s | Some s' \<Rightarrow> s')"

definition run ::
  "(fscall \<Rightarrow> error + 'v) \<Rightarrow> (string \<Rightarrow> bool) \<Rightarrow> 'e State \<Rightarrow> operation list \<Rightarrow> 'e State" where
  "run fs addOK s ops = foldl (apply_operation fs addOK) s ops"

section \<open>Concrete inputs\<close>

text \<open>
  Modelled from the spec: the type \<open>FileEntry\<close> and the constructor \<open>NewFileEntry\<close> are
  declared outside fs.go. The entry has the fields of the wire shape (name, fullPath,
  isDir, size, mode, time, isBroken, readable, writable); \<open>NewFileEntry\<close> makes the
  synthetic entry that carries the base name and the path and nothing else.
\<close>

record FileEntry =
  entry_name :: string
  entry_fullPath :: string
  entry_isDir :: bool
  entry_size :: int
  entry_mode :: "32 word"
  entry_time :: int
  entry_isBroken :: bool
  entry_readable :: bool
  entry_writable :: bool

definition NewFileEntry :: "string \<Rightarrow> string \<Rightarrow> FileEntry" where
  "NewFileEntry n p =
     \<lparr>entry_name = n, entry_fullPath = p, entry_isDir = False, entry_size = 0, entry_mode = 0,
      entry_time = 0, entry_isBroken = False, entry_readable = False, entry_writable = False\<rparr>"

text \<open>A file system with the directory \<open>/d\<close> and the file \<open>/d/f\<close> of three bytes.\<close>

definition entry_f :: FileEntry where
  "entry_f =
     \<lparr>entry_name = ''f'', entry_fullPath = ''/d/f'', entry_isDir = False, entry_size = 3,
      entry_mode = 420, entry_time = 1, entry_isBroken = False, entry_readable = True,
      entry_writable = True\<rparr>"

definition getInfo0 :: "string \<Rightarrow> error + FileEntry" where
  "getInfo0 p = (if p = ''/d/f'' then Inr entry_f else Inl (Error ''no such file or directory''))"

definition fs0 :: "fscall \<Rightarrow> error + FileEntry list" where
  "fs0 c = (if c = readDirectory ''/d'' then Inr [entry_f]
            else Inl (Error ''no such file or directory''))"

text \<open>A file system on which every primitive fails.\<close>

definition fs_denied :: "fscall \<Rightarrow> error + FileEntry list" where
  "fs_denied c = Inl (Error ''permission denied'')"

text \<open>
  Requests: \<open>subscribeRequest user path cb client\<close> is a ReadDirectory request of \<open>user\<close>
  on \<open>path\<close> with the change callback \<open>cb\<close>, sent by \<open>client\<close>; \<open>requestOf fails p\<close> is a
  request of alice whose argument decodes to \<open>p\<close>, with an error when \<open>fails\<close>.
\<close>

definition subscribeRequest ::
  "string \<Rightarrow> string \<Rightarrow> nat \<Rightarrow> nat \<Rightarrow> readDirectoryParams Request" where
  "subscribeRequest user path cb client =
     \<lparr>Username = user,
      Args = Some (Partial False \<lparr>Path = path, OnChange = Function (Some cb)\<rparr>),
      Client = client\<rparr>"

definition requestOf :: "bool \<Rightarrow> 'p \<Rightarrow> 'p Request" where
  "requestOf fails p = \<lparr>Username = ''alice'', Args = Some (Partial fails p), Client = 1\<rparr>"

text \<open>
  States: in \<open>watching_d\<close> bob (client 2) has a subscription on \<open>/d\<close> with the callback 2;
  in \<open>two_subscribers\<close> alice (client 1, callback 1) has one on \<open>/d\<close> too.
\<close>

definition watching_d :: "FileEntry State" where
  "watching_d =
     \<lparr>watchCallbacks = [''/d'' \<mapsto> [''bob'' \<mapsto> new_changer (Function (Some 2))]],
      mu = False, once_done = True, watches = {''/d''},
      onDisconnect = [(2, (''/d'', ''bob''))], calls = []\<rparr>"

definition two_subscribers :: "FileEntry State" where
  "two_subscribers =
     \<lparr>watchCallbacks = [''/d'' \<mapsto> [''alice'' \<mapsto> new_changer (Function (Some 1)),
                                   ''bob'' \<mapsto> new_changer (Function (Some 2))]],
      mu = False, once_done = True, watches = {''/d''},
      onDisconnect = [(1, (''/d'', ''alice'')), (2, (''/d'', ''bob''))], calls = []\<rparr>"

section \<open>Properties\<close>

subsection \<open>The change callback\<close>

lemmas fsnotify_ops =
  fsnotify_Create_def fsnotify_Write_def fsnotify_Remove_def fsnotify_Rename_def
  fsnotify_Chmod_def

lemma changer_calls_once:
  "\<exists>pl. snd (changer getInfo' NewFileEntry' c ev) = (OnChange_captured c, pl)"
  by (simp add: changer_def Let_def)

text \<open>
  C5. A call of the change callback with an event whose operation is Create sends the
  payload with the event class \<open>added\<close> and, as file, the entry that \<open>getInfo\<close> returns
  for the affected path (nil when \<open>getInfo\<close> fails); with an event whose operation is
  Remove or Rename it sends the payload with the class \<open>removed\<close> and the entry that
  \<open>NewFileEntry\<close> builds from the base name of the affected path and the path. The
  payload goes to the \<open>OnChange\<close> function of the request.
\<close>

theorem changer_payload:
  "(Op ev = fsnotify_Create \<and> getInfo' (Name ev) = Inr e \<longrightarrow>
      snd (changer getInfo' NewFileEntry' c ev) =
        (OnChange_captured c, \<lparr>event = ''added'', file' = Some e\<rparr>)) \<and>
   (Op ev = fsnotify_Create \<and> getInfo' (Name ev) = Inl err \<longrightarrow>
      snd (changer getInfo' NewFileEntry' c ev) =
        (OnChange_captured c, \<lparr>event = ''added'', file' = None\<rparr>)) \<and>
   (Op ev = fsnotify_Remove \<or> Op ev = fsnotify_Rename \<longrightarrow>
      snd (changer getInfo' NewFileEntry' c ev) =
        (OnChange_captured c,
         \<lparr>event = ''removed'', file' = Some (NewFileEntry' (Base (Name ev)) (Name ev))\<rparr>))"
  by (simp add: changer_def fsnotify_ops getInfo_entry_def)

theorem changer_payload_witness:
  "snd (changer getInfo0 NewFileEntry (new_changer (Function (Some 1)))
          \<lparr>Name = ''/d/f'', Op = fsnotify_Create\<rparr>) =
     (Function (Some 1), \<lparr>event = ''added'', file' = Some entry_f\<rparr>) \<and>
   snd (changer getInfo0 NewFileEntry (new_changer (Function (Some 1)))
          \<lparr>Name = ''/d/g'', Op = fsnotify_Create\<rparr>) =
     (Function (Some 1), \<lparr>event = ''added'', file' = None\<rparr>) \<and>
   snd (changer getInfo0 NewFileEntry (new_changer (Function (Some 1)))
          \<lparr>Name = ''/d/f'', Op = fsnotify_Remove\<rparr>) =
     (Function (Some 1), \<lparr>event = ''removed'', file' = Some (NewFileEntry ''f'' ''/d/f'')\<rparr>) \<and>
   snd (changer getInfo0 NewFileEntry (new_changer (Function (Some 1)))
          \<lparr>Name = ''/d/f'', Op = fsnotify_Rename\<rparr>) =
     (Function (Some 1), \<lparr>event = ''removed'', file' = Some (NewFileEntry ''f'' ''/d/f'')\<rparr>)"
  using changer_payload [of "\<lparr>Name = ''/d/f'', Op = fsnotify_Create\<rparr>" getInfo0 entry_f
          NewFileEntry "new_changer (Function (Some 1))"]
        changer_payload [of "\<lparr>Name = ''/d/g'', Op = fsnotify_Create\<rparr>" getInfo0 _
          NewFileEntry "new_changer (Function (Some 1))" "Error ''no such file or directory''"]
        changer_payload [of "\<lparr>Name = ''/d/f'', Op = fsnotify_Remove\<rparr>" getInfo0 _
          NewFileEntry "new_changer (Function (Some 1))"]
        changer_payload [of "\<lparr>Name = ''/d/f'', Op = fsnotify_Rename\<rparr>" getInfo0 _
          NewFileEntry "new_changer (Function (Some 1))"]
  by (simp add: fsnotify_ops new_changer_def getInfo0_def Base_def lastElement_def
        stripTrailingSlashes_def)

text \<open>
  C4. The claim is that an event whose operation is a write leads to no call of a
  subscriber's callback. The change callback does call \<open>OnChange\<close> for it: the switch
  has no case for Write and the call after the switch is unconditional. A new callback
  sends the empty event class and a nil file; a callback that has handled the creation
  of \<open>/d/f\<close> sends \<open>added\<close> and the entry of \<open>/d/f\<close> again.
\<close>

theorem changer_write_calls_OnChange:
  "snd (changer getInfo0 NewFileEntry (new_changer (Function (Some 1)))
          \<lparr>Name = ''/d/f'', Op = fsnotify_Write\<rparr>) =
     (Function (Some 1), \<lparr>event = [], file' = None\<rparr>) \<and>
   snd (changer getInfo0 NewFileEntry
          (fst (changer getInfo0 NewFileEntry (new_changer (Function (Some 1)))
                  \<lparr>Name = ''/d/f'', Op = fsnotify_Create\<rparr>))
          \<lparr>Name = ''/d/f'', Op = fsnotify_Write\<rparr>) =
     (Function (Some 1), \<lparr>event = ''added'', file' = Some entry_f\<rparr>)"
  by (simp add: changer_def fsnotify_ops new_changer_def getInfo_entry_def getInfo0_def)

subsection \<open>Subscribing\<close>

lemma first_subscribe_panics_always:
  assumes "Args r = Some a" "\<not> unmarshal_fails a" "Path (unmarshal_value a) \<noteq> []"
    and "IsValid (OnChange (unmarshal_value a))" and "\<not> mu s"
    and "watchCallbacks s (Path (unmarshal_value a)) = None"
  shows "ReadDirectory fs addOK r s =
     (Inl (Panic ''assignment to entry in nil map''),
      send_newPaths addOK (Path (unmarshal_value a)) (s\<lparr>once_done := True, mu := True\<rparr>))"
  using assms by (simp add: ReadDirectory_def ReadDirectory_register_def)

lemma ReadDirectory_never_adds_path:
  "dom (watchCallbacks (snd (ReadDirectory fs addOK r s))) = dom (watchCallbacks s)"
  by (auto simp: ReadDirectory_def ReadDirectory_register_def ReadDirectory_list_def Let_def
      send_newPaths_def split: option.splits if_splits sum.splits prod.splits)

lemma removePath_never_adds_path:
  "removePath p u s = Some s' \<Longrightarrow> dom (watchCallbacks s') \<subseteq> dom (watchCallbacks s)"
  by (auto simp: removePath_def send_oldPaths_def Let_def split: if_splits option.splits)

lemma apply_operation_never_adds_path:
  "dom (watchCallbacks (apply_operation fs addOK s x)) \<subseteq> dom (watchCallbacks s)"
proof (cases x)
  case (Subscribe r)
  then show ?thesis
    by (simp add: ReadDirectory_never_adds_path)
next
  case (Teardown p u)
  then show ?thesis
    using removePath_never_adds_path [of p u s]
    by (cases "removePath p u s") auto
qed

lemma run_never_adds_path:
  "dom (watchCallbacks (run fs addOK s ops)) \<subseteq> dom (watchCallbacks s)"
proof (induction ops arbitrary: s)
  case Nil
  then show ?case
    by (simp add: run_def)
next
  case (Cons x xs)
  have "dom (watchCallbacks (run fs addOK (apply_operation fs addOK s x) xs))
          \<subseteq> dom (watchCallbacks (apply_operation fs addOK s x))"
    by (rule Cons.IH)
  also have "\<dots> \<subseteq> dom (watchCallbacks s)"
    by (rule apply_operation_never_adds_path)
  finally show ?case
    by (simp add: run_def)
qed

lemma registry_stays_empty:
  "watchCallbacks (run fs addOK init ops) = Map.empty"
proof -
  have "dom (watchCallbacks (run fs addOK (init :: 'a State) ops)) \<subseteq> {}"
    using run_never_adds_path [of fs addOK "init :: 'a State" ops] by (simp add: init_def)
  then show ?thesis
    by simp
qed

lemma apply_operation_registry_watched:
  assumes "dom (watchCallbacks s) \<subseteq> watches s"
  shows "dom (watchCallbacks (apply_operation fs addOK s x)) \<subseteq>
           watches (apply_operation fs addOK s x)"
proof (cases x)
  case (Subscribe r)
  then show ?thesis
    using assms
    by (auto simp: ReadDirectory_def ReadDirectory_register_def ReadDirectory_list_def Let_def
        send_newPaths_def split: option.splits if_splits sum.splits prod.splits)
next
  case (Teardown p u)
  then show ?thesis
    using assms
    by (auto simp: removePath_def send_oldPaths_def Let_def split: if_splits option.splits)
qed

lemmas ReadDirectory_defs =
  ReadDirectory_def ReadDirectory_register_def ReadDirectory_list_def subscribeRequest_def
  IsValid_def send_newPaths_def Let_def

text \<open>
  C1. The claim is that a ReadDirectory request with a change callback, for a path
  without subscribers, puts the subscription into the registry, asks the OS layer to
  watch the path, registers the disconnect hook and returns the stop handle. On the
  first such request (alice, \<open>/d\<close>, empty registry) the handler asks for the watch and
  then panics on line 82: the registry is still empty, no hook is registered, the
  listing is not read, nothing is returned, and the mutex stays held.
\<close>

theorem first_subscribe_panics:
  "ReadDirectory fs0 (\<lambda>p. True) (subscribeRequest ''alice'' ''/d'' 1 1)
     (init :: FileEntry State) =
     (Inl (Panic ''assignment to entry in nil map''),
      \<lparr>watchCallbacks = Map.empty, mu = True, once_done = True, watches = {''/d''},
       onDisconnect = [], calls = []\<rparr>)"
  by (simp add: ReadDirectory_defs init_def)

text \<open>
  C2. The claim is that a second subscribe of the same user on the same path replaces
  the stored callback and asks for no second OS watch. On \<open>watching_d\<close>, where bob has the
  callback 2 on \<open>/d\<close>, a request of bob on \<open>/d\<close> with the callback 5 returns the listing,
  leaves the set of watches as it was and leaves the callback 2 in the registry (the
  guard of line 81 skips the assignment). From the initial state the first request
  of alice panics and the second waits for the mutex for ever; the registry is empty
  after both.
\<close>

theorem repeat_subscribe_keeps_old_callback:
  "subscription
     (snd (ReadDirectory fs0 (\<lambda>p. True) (subscribeRequest ''bob'' ''/d'' 5 2) watching_d))
     ''/d'' ''bob'' = Some (new_changer (Function (Some 2))) \<and>
   watches (snd (ReadDirectory fs0 (\<lambda>p. True) (subscribeRequest ''bob'' ''/d'' 5 2) watching_d))
     = {''/d''} \<and>
   fst (ReadDirectory fs0 (\<lambda>p. True) (subscribeRequest ''bob'' ''/d'' 5 2) watching_d) =
     Inr \<lparr>stopWatching = Some (''/d'', ''bob''), files = [entry_f]\<rparr> \<and>
   fst (ReadDirectory fs0 (\<lambda>p. True) (subscribeRequest ''alice'' ''/d'' 2 1)
          (snd (ReadDirectory fs0 (\<lambda>p. True) (subscribeRequest ''alice'' ''/d'' 1 1)
                  (init :: FileEntry State)))) = Inl Deadlock \<and>
   watchCallbacks
     (snd (ReadDirectory fs0 (\<lambda>p. True) (subscribeRequest ''alice'' ''/d'' 2 1)
          (snd (ReadDirectory fs0 (\<lambda>p. True) (subscribeRequest ''alice'' ''/d'' 1 1)
                  (init :: FileEntry State))))) = Map.empty"
  by (simp add: ReadDirectory_defs init_def watching_d_def subscription_def fs0_def)

text \<open>
  C6. The claim is that, at every point of a sequence of subscribes and teardowns, a
  path is in the registry exactly when its OS watch is active. After the sequence of
  one operation, the subscribe of alice on \<open>/d\<close> from the initial state, with a
  \<open>watcher.Add\<close> that succeeds, the watcher watches \<open>/d\<close> and the registry has no entry for
  \<open>/d\<close>: the path was sent on \<open>newPaths\<close> (line 76) before the panic of line 82.
\<close>

theorem first_subscribe_watch_without_registry:
  "''/d'' \<in> watches (run fs0 (\<lambda>p. True) (init :: FileEntry State)
                       [Subscribe (subscribeRequest ''alice'' ''/d'' 1 1)]) \<and>
   watchCallbacks (run fs0 (\<lambda>p. True) (init :: FileEntry State)
                     [Subscribe (subscribeRequest ''alice'' ''/d'' 1 1)]) ''/d'' = None"
  by (simp add: run_def ReadDirectory_defs init_def)

subsection \<open>The event loop\<close>

lemma startWatcher_event_other_paths:
  "watchCallbacks s (Dir (Name ev)) = None \<Longrightarrow> \<not> mu s \<Longrightarrow> startWatcher_event s ev = Continue"
  by (simp add: startWatcher_event_def)

text \<open>
  C3. The claim is that an event leads to one call of the callback of every subscriber
  of the parent directory of the affected path. With alice and bob subscribed to \<open>/d\<close>
  and the creation of \<open>/d/f\<close>, the loop looks up \<open>/d\<close> and then applies the map of the
  subscribers of \<open>/d\<close> itself to the event (line 163): no callback of alice or bob is
  taken out of the map and called.
\<close>

theorem event_calls_the_map:
  "startWatcher_event two_subscribers \<lparr>Name = ''/d/f'', Op = fsnotify_Create\<rparr> =
     CallOfMap [''alice'' \<mapsto> new_changer (Function (Some 1)),
                ''bob'' \<mapsto> new_changer (Function (Some 2))]
       \<lparr>Name = ''/d/f'', Op = fsnotify_Create\<rparr>"
  by (simp add: startWatcher_event_def two_subscribers_def Dir_def Clean_def cleanStep_def)

subsection \<open>Teardown\<close>

lemma removePath_returns: "\<not> mu s \<Longrightarrow> \<exists>s'. removePath p u s = Some s'"
  by (simp add: removePath_def Let_def split: option.splits)

lemma removePath_twice:
  assumes "removePath p u s = Some s'"
  shows "removePath p u s' = Some s'"
  using assms
  by (auto simp: removePath_def send_oldPaths_def Let_def split: if_splits option.splits)

lemma ReadDirectory_stop_is_hook:
  assumes "ReadDirectory fs addOK r s = (Inr resp, s1)" and "stopWatching resp = Some c"
  shows "onDisconnect s1 = onDisconnect s @ [(Client r, c)]"
  using assms
  by (auto simp: ReadDirectory_def ReadDirectory_register_def ReadDirectory_list_def Let_def
      split: option.splits if_splits sum.splits prod.splits)

lemma last_user:
  assumes "m(u := None) = Map.empty" and "v \<noteq> u"
  shows "m v = None"
proof -
  have "(m(u := None)) v = None"
    using assms(1) by simp
  with assms(2) show ?thesis
    by simp
qed

text \<open>
  C7. When ReadDirectory returns a stop handle, the hook it has registered for the
  disconnection of the client is the same closure \<open>removePath\<close>. On a state whose mutex
  is free the stop callback and the hook return the same state, and a second call of
  either on that state returns it unchanged.
\<close>

theorem teardown_idempotent:
  assumes "ReadDirectory fs addOK r s0 = (Inr resp, s1)" and "stopWatching resp = Some c"
    and "\<not> mu s"
  shows "onDisconnect s1 = onDisconnect s0 @ [(Client r, c)] \<and>
         (\<exists>s'. stopWatching_callback c arg s = Some s' \<and> disconnect_hook c s = Some s' \<and>
               stopWatching_callback c arg s' = Some s' \<and> disconnect_hook c s' = Some s')"
proof -
  obtain s' where s': "removePath (fst c) (snd c) s = Some s'"
    using removePath_returns [OF assms(3)] by blast
  then have "removePath (fst c) (snd c) s' = Some s'"
    by (rule removePath_twice)
  with s' have "\<exists>s'. stopWatching_callback c arg s = Some s' \<and> disconnect_hook c s = Some s' \<and>
               stopWatching_callback c arg s' = Some s' \<and> disconnect_hook c s' = Some s'"
    by (simp add: stopWatching_callback_def disconnect_hook_def run_removePath_def)
  with ReadDirectory_stop_is_hook [OF assms(1,2)] show ?thesis
    by simp
qed

theorem teardown_idempotent_witness:
  "onDisconnect (snd (ReadDirectory fs0 (\<lambda>p. True) (subscribeRequest ''alice'' ''/d'' 1 1)
                        watching_d)) =
     [(2, (''/d'', ''bob'')), (1, (''/d'', ''alice''))] \<and>
   (\<exists>s'. stopWatching_callback (''/d'', ''alice'') () two_subscribers = Some s' \<and>
         disconnect_hook (''/d'', ''alice'') two_subscribers = Some s' \<and>
         stopWatching_callback (''/d'', ''alice'') () s' = Some s' \<and>
         disconnect_hook (''/d'', ''alice'') s' = Some s')"
  using teardown_idempotent [of fs0 "\<lambda>p. True" "subscribeRequest ''alice'' ''/d'' 1 1" watching_d
      "\<lparr>stopWatching = Some (''/d'', ''alice''), files = [entry_f]\<rparr>"
      "snd (ReadDirectory fs0 (\<lambda>p. True) (subscribeRequest ''alice'' ''/d'' 1 1) watching_d)"
      "(''/d'', ''alice'')" two_subscribers "()"]
  by (simp add: ReadDirectory_defs watching_d_def two_subscribers_def fs0_def)

text \<open>
  C10. A teardown of the subscription of user \<open>u\<close> on path \<open>p\<close> leaves the entry of every
  other path and the subscription of every other user on \<open>p\<close> as they were, removes the
  subscription of \<open>u\<close> on \<open>p\<close>, and removes \<open>p\<close> from the registry only if \<open>p\<close> had no
  subscriber other than \<open>u\<close>.
\<close>

theorem removePath_frame:
  assumes "removePath p u s = Some s'"
  shows "(\<forall>q. q \<noteq> p \<longrightarrow> watchCallbacks s' q = watchCallbacks s q) \<and>
         (\<forall>v. v \<noteq> u \<longrightarrow> subscription s' p v = subscription s p v) \<and>
         subscription s' p u = None \<and>
         (\<forall>m. watchCallbacks s p = Some m \<and> watchCallbacks s' p = None \<longrightarrow> dom m - {u} = {})"
  using assms
  by (auto simp: removePath_def send_oldPaths_def subscription_def Let_def
      split: if_splits option.splits dest: last_user)

theorem removePath_frame_witness:
  "\<exists>s'. removePath ''/d'' ''alice'' two_subscribers = Some s' \<and>
        watchCallbacks s' ''/e'' = watchCallbacks two_subscribers ''/e'' \<and>
        subscription s' ''/d'' ''bob'' = Some (new_changer (Function (Some 2))) \<and>
        subscription s' ''/d'' ''alice'' = None \<and>
        watchCallbacks s' ''/d'' = Some [''bob'' \<mapsto> new_changer (Function (Some 2))]"
proof -
  have "\<not> mu two_subscribers"
    by (simp add: two_subscribers_def)
  then obtain s' where s': "removePath ''/d'' ''alice'' two_subscribers = Some s'"
    using removePath_returns by blast
  have bob: "subscription two_subscribers ''/d'' ''bob'' = Some (new_changer (Function (Some 2)))"
    by (simp add: subscription_def two_subscribers_def)
  have "watchCallbacks s' ''/d'' = Some [''bob'' \<mapsto> new_changer (Function (Some 2))]"
    using s' by (auto simp: removePath_def two_subscribers_def Let_def split: if_splits)
  with removePath_frame [OF s'] bob s' show ?thesis
    by simp
qed

lemma ReadDirectory_listing_after_register:
  assumes "Args r = Some a" and "\<not> unmarshal_fails a" and "Path (unmarshal_value a) \<noteq> []"
    and "IsValid (OnChange (unmarshal_value a))"
    and "fs (readDirectory (Path (unmarshal_value a))) = Inl err"
    and "ReadDirectory fs addOK r s = (res, s')"
    and "calls s' \<noteq> calls s"
  shows "res = Inl err \<and>
         calls s' = calls s @ [readDirectory (Path (unmarshal_value a))] \<and>
         watchCallbacks s (Path (unmarshal_value a)) \<noteq> None \<and>
         subscription s' (Path (unmarshal_value a)) (Username r) \<noteq> None \<and>
         (Client r, (Path (unmarshal_value a), Username r)) \<in> set (onDisconnect s')"
  using assms
  by (auto simp: ReadDirectory_def ReadDirectory_register_def ReadDirectory_list_def Let_def
      subscription_def send_newPaths_def
      split: option.splits if_splits sum.splits prod.splits)

lemma subscribe_on_empty_registry:
  assumes "Args r = Some a" and "\<not> unmarshal_fails a" and "Path (unmarshal_value a) \<noteq> []"
    and "IsValid (OnChange (unmarshal_value a))" and "watchCallbacks s = Map.empty"
  shows "calls (snd (ReadDirectory fs addOK r s)) = calls s \<and>
         watchCallbacks (snd (ReadDirectory fs addOK r s)) = Map.empty \<and>
         onDisconnect (snd (ReadDirectory fs addOK r s)) = onDisconnect s \<and>
         (\<exists>e. fst (ReadDirectory fs addOK r s) = Inl e \<and>
              (e = Deadlock \<or> e = Panic ''assignment to entry in nil map''))"
  using assms
  by (simp add: ReadDirectory_def ReadDirectory_register_def send_newPaths_def Let_def)

lemma subscribe_never_reaches_listing:
  assumes "Args r = Some a" and "\<not> unmarshal_fails a" and "Path (unmarshal_value a) \<noteq> []"
    and "IsValid (OnChange (unmarshal_value a))" and "s = run fs' addOK' init ops"
  shows "calls (snd (ReadDirectory fs addOK r s)) = calls s \<and>
         watchCallbacks (snd (ReadDirectory fs addOK r s)) = Map.empty \<and>
         onDisconnect (snd (ReadDirectory fs addOK r s)) = onDisconnect s \<and>
         (\<exists>e. fst (ReadDirectory fs addOK r s) = Inl e \<and>
              (e = Deadlock \<or> e = Panic ''assignment to entry in nil map''))"
proof -
  have "watchCallbacks s = Map.empty"
    unfolding assms(5) by (rule registry_stays_empty)
  with assms(1-4) show ?thesis
    by (rule subscribe_on_empty_registry)
qed

text \<open>
  C9. The claim is that a ReadDirectory request with a change callback stores the
  subscription and the disconnect hook before it reads the listing, so that, when the
  listing fails, the handler returns that error and the subscription stays in the
  registry. On the first request (alice, \<open>/d\<close>, initial state), with a listing that
  would fail with \<open>permission denied\<close>, the handler panics on line 82: it does not return
  the error of the listing, which is never read, and leaves neither a subscription nor
  a hook. On \<open>watching_d\<close> a request of bob with the callback 5 does return the error of
  the listing, and what stays in the registry is the old callback 2, not the one of the
  request.
\<close>

theorem first_subscribe_listing_error_lost:
  "ReadDirectory fs_denied (\<lambda>p. True) (subscribeRequest ''alice'' ''/d'' 1 1)
     (init :: FileEntry State) =
     (Inl (Panic ''assignment to entry in nil map''),
      \<lparr>watchCallbacks = Map.empty, mu = True, once_done = True, watches = {''/d''},
       onDisconnect = [], calls = []\<rparr>) \<and>
   subscription
     (snd (ReadDirectory fs_denied (\<lambda>p. True) (subscribeRequest ''alice'' ''/d'' 1 1)
             (init :: FileEntry State))) ''/d'' ''alice'' = None \<and>
   fst (ReadDirectory fs_denied (\<lambda>p. True) (subscribeRequest ''bob'' ''/d'' 5 2) watching_d) =
     Inl (Error ''permission denied'') \<and>
   subscription
     (snd (ReadDirectory fs_denied (\<lambda>p. True) (subscribeRequest ''bob'' ''/d'' 5 2) watching_d))
     ''/d'' ''bob'' = Some (new_changer (Function (Some 2)))"
  by (simp add: ReadDirectory_defs init_def watching_d_def fs_denied_def subscription_def)

subsection \<open>Bad arguments\<close>

lemma ReadDirectory_bad_arguments:
  assumes "Args r = Some a"
    and "unmarshal_fails a \<or> Path (unmarshal_value a) = []"
  shows "ReadDirectory fs addOK r s =
           (Inl (Error ''{ path: [string], onChange: [function]}''), s)"
  using assms by (auto simp: ReadDirectory_def)

lemma Glob_bad_arguments:
  assumes "Args r = Some a"
    and "unmarshal_fails a \<or> Pattern (unmarshal_value a) = []"
  shows "Glob fs r s =
           (Inl (Error ''{ pattern: [string] }''), s)"
  using assms by (auto simp: Glob_def)

lemma ReadFile_bad_arguments:
  assumes "Args r = Some a"
    and "unmarshal_fails a \<or> Path (unmarshal_value a) = []"
  shows "ReadFile fs r s =
           (Inl (Error ''{ path: [string] }''), s)"
  using assms by (auto simp: ReadFile_def)

lemma WriteFile_bad_arguments:
  assumes "Args r = Some a"
    and "unmarshal_fails a \<or> Path (unmarshal_value a) = []"
  shows "WriteFile fs r s =
           (Inl (Error ''{ path: [string] }''), s)"
  using assms by (auto simp: WriteFile_def)

lemma UniquePath_bad_arguments:
  assumes "Args r = Some a"
    and "unmarshal_fails a \<or> Path (unmarshal_value a) = []"
  shows "UniquePath fs r s =
           (Inl (Error ''{ path: [string] }''), s)"
  using assms by (auto simp: UniquePath_def)

lemma GetInfo_bad_arguments:
  assumes "Args r = Some a"
    and "unmarshal_fails a \<or> Path (unmarshal_value a) = []"
  shows "GetInfo fs r s =
           (Inl (Error ''{ path: [string] }''), s)"
  using assms by (auto simp: GetInfo_def)

lemma SetPermissions_bad_arguments:
  assumes "Args r = Some a"
    and "unmarshal_fails a \<or> Path (unmarshal_value a) = []"
  shows "SetPermissions fs r s =
           (Inl (Error ''{ path: [string], mode: [integer], recursive: [bool] }''), s)"
  using assms by (auto simp: SetPermissions_def)

lemma Remove_bad_arguments:
  assumes "Args r = Some a"
    and "unmarshal_fails a \<or> Path (unmarshal_value a) = []"
  shows "Remove fs r s =
           (Inl (Error ''{ path: [string], recursive: [bool] }''), s)"
  using assms by (auto simp: Remove_def)

lemma Rename_bad_arguments:
  assumes "Args r = Some a"
    and "unmarshal_fails a \<or> OldPath (unmarshal_value a) = [] \<or> NewPath (unmarshal_value a) = []"
  shows "Rename fs r s =
           (Inl (Error ''{ oldPath: [string], newPath: [string] }''), s)"
  using assms by (auto simp: Rename_def)

lemma CreateDirectory_bad_arguments:
  assumes "Args r = Some a"
    and "unmarshal_fails a \<or> Path (unmarshal_value a) = []"
  shows "CreateDirectory fs r s =
           (Inl (Error ''{ path: [string], recursive: [bool] }''), s)"
  using assms by (auto simp: CreateDirectory_def)

lemma Move_bad_arguments:
  assumes "Args r = Some a"
    and "unmarshal_fails a \<or> OldPath (unmarshal_value a) = [] \<or> NewPath (unmarshal_value a) = []"
  shows "Move fs r s =
           (Inl (Error ''{ oldPath: [string], newPath: [string] }''), s)"
  using assms by (auto simp: Move_def)

lemma Copy_bad_arguments:
  assumes "Args r = Some a"
    and "unmarshal_fails a \<or> SrcPath (unmarshal_value a) = [] \<or> DstPath (unmarshal_value a) = []"
  shows "Copy fs r s =
           (Inl (Error ''{ srcPath: [string], dstPath: [string] }''), s)"
  using assms by (auto simp: Copy_def)

lemma ReadDirectory_nil_arguments:
  "Args r = None \<Longrightarrow> ReadDirectory fs addOK r s = (Inl (Error ''arguments are not passed''), s)"
  by (simp add: ReadDirectory_def)

text \<open>
  C8. For each of the twelve handlers and a request that carries a first argument: if
  the decoding of the argument into the parameter record of the handler fails, or a
  required string of the record (\<open>Path\<close>; \<open>Pattern\<close>; \<open>OldPath\<close> and \<open>NewPath\<close>; \<open>SrcPath\<close> and
  \<open>DstPath\<close>) is empty afterwards, the handler returns the error whose message is the
  schema of its parameters and leaves the state as it was: no primitive is called (the
  trace of calls is part of the state) and the registry is not touched.
\<close>

theorem bad_arguments:
  fixes s :: "'e State" and fs :: "fscall \<Rightarrow> error + 'v"
  shows
  "(Args rd = Some a_rd \<and> (unmarshal_fails a_rd \<or> Path (unmarshal_value a_rd) = []) \<longrightarrow>
      ReadDirectory fs addOK rd s =
        (Inl (Error ''{ path: [string], onChange: [function]}''), s)) \<and>
   (Args rg = Some a_rg \<and> (unmarshal_fails a_rg \<or> Pattern (unmarshal_value a_rg) = []) \<longrightarrow>
      Glob fs rg s = (Inl (Error ''{ pattern: [string] }''), s)) \<and>
   (Args rp = Some a_rp \<and> (unmarshal_fails a_rp \<or> Path (unmarshal_value a_rp) = []) \<longrightarrow>
      ReadFile fs rp s = (Inl (Error ''{ path: [string] }''), s) \<and>
      UniquePath fs rp s = (Inl (Error ''{ path: [string] }''), s) \<and>
      GetInfo fs rp s = (Inl (Error ''{ path: [string] }''), s)) \<and>
   (Args rw = Some a_rw \<and> (unmarshal_fails a_rw \<or> Path (unmarshal_value a_rw) = []) \<longrightarrow>
      WriteFile fs rw s = (Inl (Error ''{ path: [string] }''), s)) \<and>
   (Args rs = Some a_rs \<and> (unmarshal_fails a_rs \<or> Path (unmarshal_value a_rs) = []) \<longrightarrow>
      SetPermissions fs rs s =
        (Inl (Error ''{ path: [string], mode: [integer], recursive: [bool] }''), s)) \<and>
   (Args rr = Some a_rr \<and> (unmarshal_fails a_rr \<or> Path (unmarshal_value a_rr) = []) \<longrightarrow>
      Remove fs rr s = (Inl (Error ''{ path: [string], recursive: [bool] }''), s) \<and>
      CreateDirectory fs rr s = (Inl (Error ''{ path: [string], recursive: [bool] }''), s)) \<and>
   (Args rn = Some a_rn \<and>
    (unmarshal_fails a_rn \<or> OldPath (unmarshal_value a_rn) = [] \<or>
     NewPath (unmarshal_value a_rn) = []) \<longrightarrow>
      Rename fs rn s = (Inl (Error ''{ oldPath: [string], newPath: [string] }''), s) \<and>
      Move fs rn s = (Inl (Error ''{ oldPath: [string], newPath: [string] }''), s)) \<and>
   (Args rc = Some a_rc \<and>
    (unmarshal_fails a_rc \<or> SrcPath (unmarshal_value a_rc) = [] \<or>
     DstPath (unmarshal_value a_rc) = []) \<longrightarrow>
      Copy fs rc s = (Inl (Error ''{ srcPath: [string], dstPath: [string] }''), s))"
proof (intro conjI impI; elim conjE)
  show "ReadDirectory fs addOK rd s =
          (Inl (Error ''{ path: [string], onChange: [function]}''), s)"
    if "Args rd = Some a_rd" "unmarshal_fails a_rd \<or> Path (unmarshal_value a_rd) = []"
    using that by (rule ReadDirectory_bad_arguments)
  show "Glob fs rg s = (Inl (Error ''{ pattern: [string] }''), s)"
    if "Args rg = Some a_rg" "unmarshal_fails a_rg \<or> Pattern (unmarshal_value a_rg) = []"
    using that by (rule Glob_bad_arguments)
  show "ReadFile fs rp s = (Inl (Error ''{ path: [string] }''), s)"
    if "Args rp = Some a_rp" "unmarshal_fails a_rp \<or> Path (unmarshal_value a_rp) = []"
    using that by (rule ReadFile_bad_arguments)
  show "UniquePath fs rp s = (Inl (Error ''{ path: [string] }''), s)"
    if "Args rp = Some a_rp" "unmarshal_fails a_rp \<or> Path (unmarshal_value a_rp) = []"
    using that by (rule UniquePath_bad_arguments)
  show "GetInfo fs rp s = (Inl (Error ''{ path: [string] }''), s)"
    if "Args rp = Some a_rp" "unmarshal_fails a_rp \<or> Path (unmarshal_value a_rp) = []"
    using that by (rule GetInfo_bad_arguments)
  show "WriteFile fs rw s = (Inl (Error ''{ path: [string] }''), s)"
    if "Args rw = Some a_rw" "unmarshal_fails a_rw \<or> Path (unmarshal_value a_rw) = []"
    using that by (rule WriteFile_bad_arguments)
  show "SetPermissions fs rs s =
          (Inl (Error ''{ path: [string], mode: [integer], recursive: [bool] }''), s)"
    if "Args rs = Some a_rs" "unmarshal_fails a_rs \<or> Path (unmarshal_value a_rs) = []"
    using that by (rule SetPermissions_bad_arguments)
  show "Remove fs rr s = (Inl (Error ''{ path: [string], recursive: [bool] }''), s)"
    if "Args rr = Some a_rr" "unmarshal_fails a_rr \<or> Path (unmarshal_value a_rr) = []"
    using that by (rule Remove_bad_arguments)
  show "CreateDirectory fs rr s = (Inl (Error ''{ path: [string], recursive: [bool] }''), s)"
    if "Args rr = Some a_rr" "unmarshal_fails a_rr \<or> Path (unmarshal_value a_rr) = []"
    using that by (rule CreateDirectory_bad_arguments)
  show "Rename fs rn s = (Inl (Error ''{ oldPath: [string], newPath: [string] }''), s)"
    if "Args rn = Some a_rn"
      "unmarshal_fails a_rn \<or> OldPath (unmarshal_value a_rn) = [] \<or>
       NewPath (unmarshal_value a_rn) = []"
    using that by (rule Rename_bad_arguments)
  show "Move fs rn s = (Inl (Error ''{ oldPath: [string], newPath: [string] }''), s)"
    if "Args rn = Some a_rn"
      "unmarshal_fails a_rn \<or> OldPath (unmarshal_value a_rn) = [] \<or>
       NewPath (unmarshal_value a_rn) = []"
    using that by (rule Move_bad_arguments)
  show "Copy fs rc s = (Inl (Error ''{ srcPath: [string], dstPath: [string] }''), s)"
    if "Args rc = Some a_rc"
      "unmarshal_fails a_rc \<or> SrcPath (unmarshal_value a_rc) = [] \<or>
       DstPath (unmarshal_value a_rc) = []"
    using that by (rule Copy_bad_arguments)
qed

theorem bad_arguments_witness:
  "ReadDirectory fs0 (\<lambda>p. True) (requestOf False \<lparr>Path = [], OnChange = Function (Some 1)\<rparr>)
     watching_d = (Inl (Error ''{ path: [string], onChange: [function]}''), watching_d) \<and>
   Glob fs0 (requestOf True \<lparr>Pattern = ''*.go''\<rparr>) watching_d =
     (Inl (Error ''{ pattern: [string] }''), watching_d) \<and>
   ReadFile fs0 (requestOf False \<lparr>Path = []\<rparr>) watching_d =
     (Inl (Error ''{ path: [string] }''), watching_d) \<and>
   UniquePath fs0 (requestOf False \<lparr>Path = []\<rparr>) watching_d =
     (Inl (Error ''{ path: [string] }''), watching_d) \<and>
   GetInfo fs0 (requestOf False \<lparr>Path = []\<rparr>) watching_d =
     (Inl (Error ''{ path: [string] }''), watching_d) \<and>
   WriteFile fs0
     (requestOf True \<lparr>Path = ''/d/f'', Content = [1, 2, 3], DoNotOverwrite = False,
                       Append = False\<rparr>) watching_d =
     (Inl (Error ''{ path: [string] }''), watching_d) \<and>
   SetPermissions fs0 (requestOf False \<lparr>Path = [], Recursive = True, Mode = 420\<rparr>) watching_d =
     (Inl (Error ''{ path: [string], mode: [integer], recursive: [bool] }''), watching_d) \<and>
   Remove fs0 (requestOf False \<lparr>Path = [], Recursive = True\<rparr>) watching_d =
     (Inl (Error ''{ path: [string], recursive: [bool] }''), watching_d) \<and>
   CreateDirectory fs0 (requestOf False \<lparr>Path = [], Recursive = True\<rparr>) watching_d =
     (Inl (Error ''{ path: [string], recursive: [bool] }''), watching_d) \<and>
   Rename fs0 (requestOf False \<lparr>OldPath = ''/d/f'', NewPath = []\<rparr>) watching_d =
     (Inl (Error ''{ oldPath: [string], newPath: [string] }''), watching_d) \<and>
   Move fs0 (requestOf False \<lparr>OldPath = ''/d/f'', NewPath = []\<rparr>) watching_d =
     (Inl (Error ''{ oldPath: [string], newPath: [string] }''), watching_d) \<and>
   Copy fs0 (requestOf False \<lparr>SrcPath = [], DstPath = ''/d/g''\<rparr>) watching_d =
     (Inl (Error ''{ srcPath: [string], dstPath: [string] }''), watching_d)"
  using bad_arguments [where s = watching_d and fs = fs0 and addOK = "\<lambda>p. True"
      and rd = "requestOf False \<lparr>Path = [], OnChange = Function (Some 1)\<rparr>"
      and a_rd = "Partial False \<lparr>Path = [], OnChange = Function (Some 1)\<rparr>"
      and rg = "requestOf True \<lparr>Pattern = ''*.go''\<rparr>"
      and a_rg = "Partial True \<lparr>Pattern = ''*.go''\<rparr>"
      and rp = "requestOf False \<lparr>Path = []\<rparr>"
      and a_rp = "Partial False \<lparr>Path = []\<rparr>"
      and rw = "requestOf True \<lparr>Path = ''/d/f'', Content = [1, 2, 3], DoNotOverwrite = False,
                       Append = False\<rparr>"
      and a_rw = "Partial True \<lparr>Path = ''/d/f'', Content = [1, 2, 3], DoNotOverwrite = False,
                       Append = False\<rparr>"
      and rs = "requestOf False \<lparr>Path = [], Recursive = True, Mode = 420\<rparr>"
      and a_rs = "Partial False \<lparr>Path = [], Recursive = True, Mode = 420\<rparr>"
      and rr = "requestOf False \<lparr>Path = [], Recursive = True\<rparr>"
      and a_rr = "Partial False \<lparr>Path = [], Recursive = True\<rparr>"
      and rn = "requestOf False \<lparr>OldPath = ''/d/f'', NewPath = []\<rparr>"
      and a_rn = "Partial False \<lparr>OldPath = ''/d/f'', NewPath = []\<rparr>"
      and rc = "requestOf False \<lparr>SrcPath = [], DstPath = ''/d/g''\<rparr>"
      and a_rc = "Partial False \<lparr>SrcPath = [], DstPath = ''/d/g''\<rparr>"]
  by (simp add: requestOf_def)

end
